theory Spec2Isabelle
  imports Main "HOL-Library.Word"
begin

section \<open>Common vocabulary\<close>

text \<open>
  A Go call either returns or panics (an index out of range, a nil dereference, a write
  to a nil map). A panic is a value of the model, never an unspecified HOL term.
\<close>

datatype 'a outcome = Returned 'a | Panic

text \<open>
  Go errors are values. Every \<open>fmt.Errorf\<close> site of the sources has its own
  constructor, carrying the arguments that the message formats; \<open>External\<close> is an
  error handed over by a collaborator outside the sources (the docker client, the
  operating system, a watcher, the kernel connection).
\<close>

datatype error =
    External string
  | CgroupPathEmpty
  | OpenCgroupPathFailed string error
  | RwLayerIDFailed string error
  | DockerStatusFailed error
  | InspectFailed string error
  | CreateTimestampFailed string string error
  | DeviceInfoFailed string error

type_synonym uint64 = "64 word"

text \<open>\<open>strings.HasPrefix(s, prefix)\<close>: \<open>len(s) >= len(prefix) && s[:len(prefix)] == prefix\<close>.\<close>

definition HasPrefix :: "string \<Rightarrow> string \<Rightarrow> bool" where
  "HasPrefix s pre = (length pre \<le> length s \<and> take (length pre) s = pre)"

text \<open>\<open>xs[i]\<close> on a Go slice: a run-time panic when the index is out of range.\<close>

definition index :: "'a list \<Rightarrow> nat \<Rightarrow> 'a outcome" where
  "index xs i = (if i < length xs then Returned (xs ! i) else Panic)"


section \<open>The raw factory (package raw)\<close>

text \<open>
  Of \<open>rawFactory\<close> only \<open>rawPrefixWhiteList\<close> is read by \<open>CanHandleAndAccept\<close>; the
  other fields (machine info factory, cgroup subsystems, filesystem info, inotify
  watcher, included metrics) are collaborators that this method never touches. The
  package-level flag \<open>*dockerOnly\<close> is the first argument.
\<close>

record rawFactory =
  rawPrefixWhiteList :: "string list"

text \<open>
  The \<open>for _, prefix := range self.rawPrefixWhiteList\<close> loop with the return that
  follows it.
\<close>

fun whiteListLoop :: "string \<Rightarrow> string list \<Rightarrow> bool \<times> bool \<times> error option" where
  "whiteListLoop name [] = (True, False, None)"
| "whiteListLoop name (pre # rest) =
     (if HasPrefix name pre then (True, True, None) else whiteListLoop name rest)"

text \<open>
  The condition \<open>*dockerOnly && self.rawPrefixWhiteList[0] == ""\<close>: \<open>&&\<close> evaluates
  its right operand, and so indexes the slice, only when the flag is set.
\<close>

definition dockerOnlyAndNoWhiteList :: "bool \<Rightarrow> rawFactory \<Rightarrow> bool outcome" where
  "dockerOnlyAndNoWhiteList dockerOnly self =
     (if dockerOnly then
        (case index (rawPrefixWhiteList self) 0 of
           Panic \<Rightarrow> Panic
         | Returned p0 \<Rightarrow> Returned (p0 = ''''))
      else Returned False)"

definition CanHandleAndAccept ::
    "bool \<Rightarrow> rawFactory \<Rightarrow> string \<Rightarrow> (bool \<times> bool \<times> error option) outcome" where
  "CanHandleAndAccept dockerOnly self name =
     (if name = ''/'' then Returned (True, True, None)
      else
        (case dockerOnlyAndNoWhiteList dockerOnly self of
           Panic \<Rightarrow> Panic
         | Returned True \<Rightarrow> Returned (True, False, None)
         | Returned False \<Rightarrow> Returned (whiteListLoop name (rawPrefixWhiteList self))))"


section \<open>Go's \<open>path.Clean\<close> and \<open>path.Join\<close>, and the string helpers\<close>

text \<open>
  The handler builds every directory name with \<open>path.Join\<close> of the Go standard
  library, which joins the non-empty elements with a slash and cleans the result. The
  two functions are transcribed byte by byte: \<open>out\<close> is the written part of the lazy
  buffer (\<open>out.w\<close> is its length), the string argument of \<open>cleanLoop\<close> is
  \<open>path[r:]\<close>, and \<open>dotdot\<close> is the index where a \<open>..\<close> must stop.
\<close>

text \<open>\<open>for out.w > dotdot && out.index(out.w) != '/' { out.w-- }\<close>, from \<open>out.w = w\<close>.\<close>

fun backtrack :: "string \<Rightarrow> nat \<Rightarrow> nat \<Rightarrow> nat" where
  "backtrack out dotdot w =
     (if w > dotdot \<and> out ! w \<noteq> CHR ''/'' then backtrack out dotdot (w - 1) else w)"

declare backtrack.simps [simp del]

text \<open>\<open>r == n || path[r] == '/'\<close> on the rest of the path.\<close>

definition elemEnd :: "string \<Rightarrow> bool" where
  "elemEnd p = (case p of [] \<Rightarrow> True | c # _ \<Rightarrow> c = CHR ''/'')"

definition notSlash :: "char \<Rightarrow> bool" where
  "notSlash c = (c \<noteq> CHR ''/'')"

function cleanLoop :: "bool \<Rightarrow> string \<Rightarrow> string \<Rightarrow> nat \<Rightarrow> string" where
  "cleanLoop rooted [] out dotdot = out"
| "cleanLoop rooted (c # rest) out dotdot =
     (if c = CHR ''/'' then cleanLoop rooted rest out dotdot
      else if c = CHR ''.'' \<and> elemEnd rest then cleanLoop rooted rest out dotdot
      else if c = CHR ''.'' \<and> rest \<noteq> [] \<and> hd rest = CHR ''.'' \<and> elemEnd (tl rest) then
        (if length out > dotdot then
           cleanLoop rooted (tl rest)
             (take (backtrack out dotdot (length out - 1)) out) dotdot
         else if \<not> rooted then
           cleanLoop rooted (tl rest)
             ((if length out > 0 then out @ ''/'' else out) @ ''..'')
             (length ((if length out > 0 then out @ ''/'' else out) @ ''..''))
         else cleanLoop rooted (tl rest) out dotdot)
      else
        cleanLoop rooted (dropWhile notSlash rest)
          ((if rooted \<and> length out \<noteq> 1 \<or> \<not> rooted \<and> length out \<noteq> 0
            then out @ ''/'' else out) @ c # takeWhile notSlash rest)
          dotdot)"
  by pat_completeness auto
termination
  by (relation "measure (\<lambda>(rooted, p, out, dotdot). length p)")
     (auto simp: length_dropWhile_le le_imp_less_Suc)

definition path_Clean :: "string \<Rightarrow> string" where
  "path_Clean p =
     (case p of
        [] \<Rightarrow> ''.''
      | c # rest \<Rightarrow>
          (let out = (if c = CHR ''/'' then cleanLoop True rest ''/'' 1
                      else cleanLoop False p [] 0)
           in if length out = 0 then ''.'' else out))"

text \<open>
  The loop of \<open>path.Join\<close>: \<open>if len(buf) > 0 || e != ""\<close>, with a slash before
  every element but the first one written.
\<close>

fun joinLoop :: "string list \<Rightarrow> string \<Rightarrow> string" where
  "joinLoop [] buf = buf"
| "joinLoop (e # es) buf =
     joinLoop es
       (if length buf > 0 \<or> e \<noteq> []
        then (if length buf > 0 then buf @ ''/'' else buf) @ e
        else buf)"

definition path_Join :: "string list \<Rightarrow> string" where
  "path_Join elem =
     (if sum_list (map length elem) = 0 then [] else path_Clean (joinLoop elem []))"

text \<open>\<open>strings.TrimPrefix\<close>.\<close>

definition TrimPrefix :: "string \<Rightarrow> string \<Rightarrow> string" where
  "TrimPrefix s pre = (if HasPrefix s pre then drop (length pre) s else s)"

text \<open>
  \<open>strings.SplitN(s, sep, 2)\<close> for a one-byte separator: the string is cut at the
  first separator, or returned whole when it has none.
\<close>

definition SplitN2 :: "string \<Rightarrow> char \<Rightarrow> string list" where
  "SplitN2 s sep =
     (if sep \<in> set s
      then [takeWhile (\<lambda>c. c \<noteq> sep) s, tl (dropWhile (\<lambda>c. c \<noteq> sep) s)]
      else [s])"

text \<open>\<open>strconv.Itoa\<close>: the decimal digits of an integer.\<close>

fun dec :: "nat \<Rightarrow> string" where
  "dec n =
     (if n < 10 then [char_of (48 + n)] else dec (n div 10) @ [char_of (48 + n mod 10)])"

declare dec.simps [simp del]

definition Itoa :: "int \<Rightarrow> string" where
  "Itoa n = (if n < 0 then CHR ''-'' # dec (nat (- n)) else dec (nat n))"


section \<open>The docker container handler (package docker): data\<close>

text \<open>
  Modelled from the spec: the driver names are constants of the docker factory, which
  is not among the sources; the spec names the directory-based drivers aufs, overlay
  and overlay2 (its Scenario A spells the last one in a path), the thin-pool driver and
  the copy-on-write filesystem driver. \<open>storageDriver\<close> itself is a Go string type.
\<close>

type_synonym storageDriver = string

definition devicemapperStorageDriver :: storageDriver where
  "devicemapperStorageDriver = ''devicemapper''"

definition aufsStorageDriver :: storageDriver where
  "aufsStorageDriver = ''aufs''"

definition overlayStorageDriver :: storageDriver where
  "overlayStorageDriver = ''overlay''"

definition overlay2StorageDriver :: storageDriver where
  "overlay2StorageDriver = ''overlay2''"

definition zfsStorageDriver :: storageDriver where
  "zfsStorageDriver = ''zfs''"

text \<open>The constants of the handler's source file.\<close>

definition aufsRWLayer :: string where
  "aufsRWLayer = ''diff''"

definition overlayRWLayer :: string where
  "overlayRWLayer = ''upper''"

definition overlay2RWLayer :: string where
  "overlay2RWLayer = ''diff''"

definition pathToContainersDir :: string where
  "pathToContainersDir = ''containers''"

definition randomizedRWLayerMinorVersion :: int where
  "randomizedRWLayerMinorVersion = 10"

definition rwLayerIDFile :: string where
  "rwLayerIDFile = ''mount-id''"

text \<open>\<open>time.RFC3339Nano\<close>, the layout handed to \<open>time.Parse\<close>.\<close>

definition RFC3339Nano :: string where
  "RFC3339Nano = ''2006-01-02T15:04:05.999999999Z07:00''"

text \<open>
  Modelled from the spec: the metric kinds and \<open>MetricSet.Has\<close> belong to package
  container, outside the sources. A metric set is a Go map used as a set; the handler
  asks it for three kinds only.
\<close>

datatype MetricKind =
    NetworkUsageMetrics
  | DiskUsageMetrics
  | DiskIOMetrics
  | OtherMetrics string

definition Has :: "MetricKind set \<Rightarrow> MetricKind \<Rightarrow> bool" where
  "Has ms k = (k \<in> ms)"

text \<open>
  Modelled from the spec: the namespace constant of the docker factory (one namespace
  per runtime).
\<close>

definition DockerNamespace :: string where
  "DockerNamespace = ''docker''"

text \<open>
  What the constructor reads of the docker client's inspection answer. A Go map may be
  \<open>nil\<close>: reading a nil map gives the zero value, writing to it panics, so the labels
  keep that case (\<open>None\<close>).
\<close>

record ContainerJSON =
  Created :: string
  CName :: string
  Config_Labels :: "(string \<rightharpoonup> string) option"
  Config_Image :: string
  Config_Env :: "string list"
  State_Pid :: int
  HostConfig_NetworkMode :: string
  RestartCount :: int
  NetworkSettings_IPAddress :: string
  GraphDriver_Data :: "string \<rightharpoonup> string"

text \<open>
  Modelled from the spec: the stats, usage and inventory structs are declared in
  packages info, common and fs, outside the sources. The fields are those the handler
  reads or writes (spec, data model: a filesystem sub-record carries device, type,
  capacity limit, base usage, total usage and inode usage; a usage snapshot is
  \<open>{BaseUsageBytes, TotalUsageBytes, InodeUsage}\<close>). The network sub-record is kept
  as an interface name, two byte counters and the per-interface list; the disk I/O
  sub-record is a type parameter, since only a collaborator touches it.
\<close>

record FsUsage =
  BaseUsageBytes :: uint64
  TotalUsageBytes :: uint64
  InodeUsage :: uint64

record InterfaceStats =
  IName :: string
  RxBytes :: uint64
  TxBytes :: uint64

record NetworkStats =
  Iface :: InterfaceStats
  Interfaces :: "InterfaceStats list"

record FsStats =
  Device :: string
  Type :: string
  Limit :: uint64
  BaseUsage :: uint64
  Usage :: uint64
  Inodes :: uint64

record 'd ContainerStats =
  Network :: NetworkStats
  Filesystem :: "FsStats list"
  DiskIo :: 'd

record FsInfo =
  fi_Device :: string
  fi_Type :: string
  fi_Capacity :: uint64

record MachineInfo =
  Filesystems :: "FsInfo list"

record DeviceInfo =
  di_Device :: string

record ContainerReference =
  Id :: string
  Name :: string
  Aliases :: "string list"
  Namespace :: string

text \<open>The Go zero values \<open>info.NetworkStats{}\<close> and \<open>common.FsUsage{}\<close>.\<close>

definition zeroNetworkStats :: NetworkStats where
  "zeroNetworkStats =
     \<lparr>Iface = \<lparr>IName = [], RxBytes = 0, TxBytes = 0\<rparr>, Interfaces = []\<rparr>"

definition zeroFsUsage :: FsUsage where
  "zeroFsUsage = \<lparr>BaseUsageBytes = 0, TotalUsageBytes = 0, InodeUsage = 0\<rparr>"

text \<open>
  Modelled from the spec: the filesystem usage sampler of package common is not among
  the sources. It is built from a period and two directories, and its \<open>Usage()\<close>
  returns the last completed sample without blocking, the zero snapshot before any
  sample has completed (spec 4.4). The field \<open>lastUsage\<close> is that sample.
\<close>

record commonFsHandler =
  period :: int
  rootfs :: string
  extraDir :: string
  lastUsage :: FsUsage

definition NewFsHandler :: "int \<Rightarrow> string \<Rightarrow> string \<Rightarrow> commonFsHandler" where
  "NewFsHandler p r e = \<lparr>period = p, rootfs = r, extraDir = e, lastUsage = zeroFsUsage\<rparr>"

text \<open>
  A watcher pointer is \<open>nil\<close> (\<open>None\<close>) or a watcher, which is its \<open>GetUsage\<close>: from
  a device id or a filesystem name to an error or a byte count.
\<close>

type_synonym watcher = "string \<Rightarrow> error + uint64"

record dockerFsHandler =
  fsHandler :: commonFsHandler
  thinPoolWatcher :: "watcher option"
  deviceID :: string
  zfsWatcher :: "watcher option"
  zfsFilesystem :: string

text \<open>
  The handle that \<open>containerlibcontainer.NewHandler\<close> builds, as the arguments it is
  built from.
\<close>

record libcontainerHandler =
  lc_Name :: string
  lc_Paths :: "string \<rightharpoonup> string"
  lc_rootFs :: string
  lc_pid :: int
  lc_includedMetrics :: "MetricKind set"

text \<open>
  The handler. A collaborator object is the answer of the one method the handler calls
  on it: \<open>machineInfoFactory\<close> is what \<open>GetMachineInfo()\<close> returns, \<open>fsInfo\<close> is
  \<open>GetDirFsDevice\<close>. The filesystem handler is an interface value, \<open>nil\<close> when disk
  usage metrics are off.
\<close>

record dockerContainerHandler =
  machineInfoFactory :: "error + MachineInfo"
  cgroupPaths :: "string \<rightharpoonup> string"
  storageDriver :: storageDriver
  fsInfo :: "string \<Rightarrow> error + DeviceInfo"
  rootfsStorageDir :: string
  creationTime :: int
  envs :: "string \<rightharpoonup> string"
  labels :: "(string \<rightharpoonup> string) option"
  image :: string
  networkMode :: string
  fsHandler_c :: "dockerFsHandler option"
  ipAddress :: string
  includedMetrics :: "MetricKind set"
  poolName :: string
  zfsParent :: string
  reference :: ContainerReference
  libcontainerHandler :: libcontainerHandler

text \<open>
  What construction calls outside the sources: the operating system
  (\<open>ioutil.ReadFile\<close>), the docker client (\<open>ContainerInspect\<close>, \<open>Status\<close> with its
  driver status map), \<open>time.Parse\<close>, \<open>strings.ToLower\<close>, and the helpers and
  constants of this repository that are not among the sources
  (\<open>ContainerNameToDockerId\<close>, \<open>common.MakeCgroupPaths\<close>, \<open>common.DefaultPeriod\<close>,
  \<open>dockerutil.DriverStatusParentDataset\<close>). They are parameters.
\<close>

record collaborators =
  ReadFile :: "string \<Rightarrow> error + string"
  ContainerInspect :: "string \<Rightarrow> error + ContainerJSON"
  Status :: "error + (string \<rightharpoonup> string)"
  time_Parse :: "string \<Rightarrow> string \<Rightarrow> error + int"
  ToLower :: "string \<Rightarrow> string"
  ContainerNameToDockerId :: "string \<Rightarrow> string"
  MakeCgroupPaths :: "(string \<rightharpoonup> string) \<Rightarrow> string \<Rightarrow> (string \<rightharpoonup> string)"
  DefaultPeriod :: int
  DriverStatusParentDataset :: string

text \<open>Reading a Go \<open>map[string]string\<close>: the zero value for a missing key.\<close>

definition lookup :: "(string \<rightharpoonup> string) \<Rightarrow> string \<Rightarrow> string" where
  "lookup m k = (case m k of None \<Rightarrow> [] | Some v \<Rightarrow> v)"


section \<open>The docker container handler: construction\<close>

text \<open>
  \<open>(dockerVersion[0] <= 1) && (dockerVersion[1] < randomizedRWLayerMinorVersion)\<close>:
  the minor component is indexed only when the major one is at most 1.
\<close>

definition beforeRandomizedID :: "int list \<Rightarrow> bool outcome" where
  "beforeRandomizedID dockerVersion =
     (case index dockerVersion 0 of
        Panic \<Rightarrow> Panic
      | Returned major \<Rightarrow>
          if major \<le> 1 then
            (case index dockerVersion 1 of
               Panic \<Rightarrow> Panic
             | Returned minor \<Rightarrow> Returned (minor < randomizedRWLayerMinorVersion))
          else Returned False)"

text \<open>
  \<open>getRwLayerID\<close> returns its Go result together with the list of the files it asked
  the operating system to read, in order.
\<close>

definition getRwLayerID ::
    "(string \<Rightarrow> error + string) \<Rightarrow> string \<Rightarrow> string \<Rightarrow> storageDriver \<Rightarrow> int list \<Rightarrow>
     (string \<times> error option) outcome \<times> string list" where
  "getRwLayerID readFile containerID storageDir sd dockerVersion =
     (case beforeRandomizedID dockerVersion of
        Panic \<Rightarrow> (Panic, [])
      | Returned True \<Rightarrow> (Returned (containerID, None), [])
      | Returned False \<Rightarrow>
          (let file = path_Join [storageDir, ''image'', sd, ''layerdb'', ''mounts'',
                                 containerID, rwLayerIDFile]
           in case readFile file of
                Inl err \<Rightarrow> (Returned ([], Some (RwLayerIDFailed containerID err)), [file])
              | Inr bytes \<Rightarrow> (Returned (bytes, None), [file])))"

text \<open>
  \<open>rootFs\<close> and \<open>storageDir\<close> after
  \<open>if !inHostNamespace { rootFs = "/rootfs"; storageDir = path.Join(rootFs, storageDir) }\<close>.
\<close>

definition rootFsOf :: "bool \<Rightarrow> string" where
  "rootFsOf inHostNamespace = (if inHostNamespace then ''/'' else ''/rootfs'')"

definition storageDirOf :: "bool \<Rightarrow> string \<Rightarrow> string" where
  "storageDirOf inHostNamespace storageDir =
     (if inHostNamespace then storageDir
      else path_Join [rootFsOf inHostNamespace, storageDir])"

text \<open>
  The \<open>switch storageDriver\<close> of the constructor: the triple
  \<open>(rootfsStorageDir, zfsFilesystem, zfsParent)\<close>, each the empty string unless its
  case assigns it, or the error of the zfs case.
\<close>

definition rwLayerLayout ::
    "collaborators \<Rightarrow> storageDriver \<Rightarrow> string \<Rightarrow> string \<Rightarrow> error + string \<times> string \<times> string" where
  "rwLayerLayout env sd storageDir rwLayerID =
     (if sd = aufsStorageDriver then
        Inr (path_Join [storageDir, aufsStorageDriver, aufsRWLayer, rwLayerID], [], [])
      else if sd = overlayStorageDriver then
        Inr (path_Join [storageDir, sd, rwLayerID, overlayRWLayer], [], [])
      else if sd = overlay2StorageDriver then
        Inr (path_Join [storageDir, sd, rwLayerID, overlay2RWLayer], [], [])
      else if sd = zfsStorageDriver then
        (case Status env of
           Inl err \<Rightarrow> Inl (DockerStatusFailed err)
         | Inr driverStatus \<Rightarrow>
             (let zfsParent' = lookup driverStatus (DriverStatusParentDataset env)
              in Inr ([], path_Join [zfsParent', rwLayerID], zfsParent')))
      else Inr ([], [], []))"

text \<open>
  \<open>if ctnr.RestartCount > 0 { handler.labels["restartcount"] = strconv.Itoa(...) }\<close>:
  the handler's labels are the inspected map itself, and a write to a nil map panics.
\<close>

definition labelsOf :: "ContainerJSON \<Rightarrow> (string \<rightharpoonup> string) option outcome" where
  "labelsOf ctnr =
     (if RestartCount ctnr > 0 then
        (case Config_Labels ctnr of
           None \<Rightarrow> Panic
         | Some m \<Rightarrow> Returned (Some (m(''restartcount'' \<mapsto> Itoa (RestartCount ctnr)))))
      else Returned (Config_Labels ctnr))"

text \<open>
  The IP address: the container's own, or, when it has none and its network mode starts
  with \<open>container:\<close>, the one of the container named there (one more inspection).
\<close>

definition ipAddressOf :: "collaborators \<Rightarrow> string \<Rightarrow> ContainerJSON \<Rightarrow> error + string" where
  "ipAddressOf env id' ctnr =
     (let ipAddress' = NetworkSettings_IPAddress ctnr;
          networkMode' = HostConfig_NetworkMode ctnr
      in if ipAddress' = [] \<and> HasPrefix networkMode' ''container:'' then
           (case ContainerInspect env (TrimPrefix networkMode' ''container:'') of
              Inl err \<Rightarrow> Inl (InspectFailed id' err)
            | Inr c \<Rightarrow> Inr (NetworkSettings_IPAddress c))
         else Inr ipAddress')"

text \<open>The two nested loops that fill \<open>handler.envs\<close> from the exposed variables.\<close>

fun envVarLoop ::
    "(string \<Rightarrow> string) \<Rightarrow> string \<Rightarrow> string list \<Rightarrow> (string \<rightharpoonup> string) \<Rightarrow> (string \<rightharpoonup> string)" where
  "envVarLoop lower exposedEnv [] m = m"
| "envVarLoop lower exposedEnv (envVar # rest) m =
     envVarLoop lower exposedEnv rest
       (if envVar \<noteq> [] then
          (let splits = SplitN2 envVar CHR ''=''
           in if length splits = 2 \<and> splits ! 0 = exposedEnv
              then m(lower exposedEnv \<mapsto> splits ! 1) else m)
        else m)"

fun metadataEnvLoop ::
    "(string \<Rightarrow> string) \<Rightarrow> string list \<Rightarrow> string list \<Rightarrow> (string \<rightharpoonup> string) \<Rightarrow> (string \<rightharpoonup> string)" where
  "metadataEnvLoop lower [] env m = m"
| "metadataEnvLoop lower (exposedEnv # rest) env m =
     metadataEnvLoop lower rest env (envVarLoop lower exposedEnv env m)"

text \<open>
  The constructor. The docker client, the machine info factory and the filesystem info
  are the collaborators; \<open>cgroupSubsystems\<close> is the mount point map it is read for.
  The result is Go's pair of a handler pointer and an error.
\<close>

definition newDockerContainerHandler ::
    "collaborators \<Rightarrow> string \<Rightarrow> (error + MachineInfo) \<Rightarrow> (string \<Rightarrow> error + DeviceInfo) \<Rightarrow>
     storageDriver \<Rightarrow> string \<Rightarrow> (string \<rightharpoonup> string) \<Rightarrow> bool \<Rightarrow> string list \<Rightarrow> int list \<Rightarrow>
     MetricKind set \<Rightarrow> string \<Rightarrow> watcher option \<Rightarrow> watcher option \<Rightarrow>
     (dockerContainerHandler option \<times> error option) outcome" where
  "newDockerContainerHandler env name machineInfoFactory' fsInfo' storageDriver' storageDir0
       cgroupSubsystems inHostNamespace metadataEnvs dockerVersion includedMetrics'
       thinPoolName thinPoolWatcher' zfsWatcher' =
     (let cgroupPaths' = MakeCgroupPaths env cgroupSubsystems name;
          rootFs = rootFsOf inHostNamespace;
          storageDir = storageDirOf inHostNamespace storageDir0;
          id' = ContainerNameToDockerId env name;
          otherStorageDir = path_Join [storageDir, pathToContainersDir, id']
      in case fst (getRwLayerID (ReadFile env) id' storageDir storageDriver' dockerVersion) of
           Panic \<Rightarrow> Panic
         | Returned (_, Some err) \<Rightarrow> Returned (None, Some err)
         | Returned (rwLayerID, None) \<Rightarrow>
       (case rwLayerLayout env storageDriver' storageDir rwLayerID of
           Inl err \<Rightarrow> Returned (None, Some err)
         | Inr (rootfsStorageDir', zfsFilesystem', zfsParent') \<Rightarrow>
       (case ContainerInspect env id' of
           Inl err \<Rightarrow> Returned (None, Some (InspectFailed id' err))
         | Inr ctnr \<Rightarrow>
       (case time_Parse env RFC3339Nano (Created ctnr) of
           Inl err \<Rightarrow> Returned (None, Some (CreateTimestampFailed (Created ctnr) id' err))
         | Inr creationTime' \<Rightarrow>
       (case labelsOf ctnr of
           Panic \<Rightarrow> Panic
         | Returned labels' \<Rightarrow>
       (case ipAddressOf env id' ctnr of
           Inl err \<Rightarrow> Returned (None, Some err)
         | Inr ipAddress' \<Rightarrow>
           Returned
             (Some
               \<lparr>machineInfoFactory = machineInfoFactory',
                cgroupPaths = cgroupPaths',
                storageDriver = storageDriver',
                fsInfo = fsInfo',
                rootfsStorageDir = rootfsStorageDir',
                creationTime = creationTime',
                envs = metadataEnvLoop (ToLower env) metadataEnvs (Config_Env ctnr) Map.empty,
                labels = labels',
                image = Config_Image ctnr,
                networkMode = HostConfig_NetworkMode ctnr,
                fsHandler_c =
                  (if Has includedMetrics' DiskUsageMetrics then
                     Some \<lparr>fsHandler =
                             NewFsHandler (DefaultPeriod env) rootfsStorageDir' otherStorageDir,
                           thinPoolWatcher = thinPoolWatcher',
                           deviceID = lookup (GraphDriver_Data ctnr) ''DeviceId'',
                           zfsWatcher = zfsWatcher',
                           zfsFilesystem = zfsFilesystem'\<rparr>
                   else None),
                ipAddress = ipAddress',
                includedMetrics = includedMetrics',
                poolName = thinPoolName,
                zfsParent = zfsParent',
                reference =
                  \<lparr>Id = id', Name = name,
                   Aliases = [TrimPrefix (CName ctnr) ''/'', id'],
                   Namespace = DockerNamespace\<rparr>,
                libcontainerHandler =
                  \<lparr>lc_Name = name, lc_Paths = cgroupPaths', lc_rootFs = rootFs,
                   lc_pid = State_Pid ctnr, lc_includedMetrics = includedMetrics'\<rparr>\<rparr>,
              None)))))))"


section \<open>The storage driver usage corrector\<close>

text \<open>
  \<open>dockerFsHandler.Usage\<close>: the sampler's snapshot, then the thin pool block, then the
  zfs block. A block does nothing when its watcher is nil or its query fails (the
  message it logs is not part of the model). Addition on \<open>uint64\<close> wraps around.
\<close>

definition thinPoolOverlay :: "dockerFsHandler \<Rightarrow> FsUsage \<Rightarrow> FsUsage" where
  "thinPoolOverlay h u =
     (case thinPoolWatcher h of
        None \<Rightarrow> u
      | Some w \<Rightarrow>
          (case w (deviceID h) of
             Inl err \<Rightarrow> u
           | Inr thinPoolUsage \<Rightarrow>
               u\<lparr>BaseUsageBytes := thinPoolUsage,
                 TotalUsageBytes := TotalUsageBytes u + thinPoolUsage\<rparr>))"

definition zfsOverlay :: "dockerFsHandler \<Rightarrow> FsUsage \<Rightarrow> FsUsage" where
  "zfsOverlay h u =
     (case zfsWatcher h of
        None \<Rightarrow> u
      | Some w \<Rightarrow>
          (case w (zfsFilesystem h) of
             Inl err \<Rightarrow> u
           | Inr zfsUsage \<Rightarrow>
               u\<lparr>BaseUsageBytes := zfsUsage,
                 TotalUsageBytes := TotalUsageBytes u + zfsUsage\<rparr>))"

definition dockerFsHandler_Usage :: "dockerFsHandler \<Rightarrow> FsUsage" where
  "dockerFsHandler_Usage h = zfsOverlay h (thinPoolOverlay h (lastUsage (fsHandler h)))"


section \<open>The docker container handler: statistics\<close>

text \<open>
  \<open>NetworkMode.IsContainer\<close> of the docker API types:
  \<open>parts := strings.SplitN(string(n), ":", 2); return len(parts) > 1 && parts[0] == "container"\<close>.
\<close>

definition IsContainer :: "string \<Rightarrow> bool" where
  "IsContainer n =
     (let parts = SplitN2 n CHR '':'' in length parts > 1 \<and> parts ! 0 = ''container'')"

definition needNet :: "dockerContainerHandler \<Rightarrow> bool" where
  "needNet self =
     (if Has (includedMetrics self) NetworkUsageMetrics
      then \<not> IsContainer (networkMode self)
      else False)"

text \<open>
  What a poll calls outside the sources: the libcontainer handler's \<open>GetStats\<close>, which
  returns a stats pointer (possibly nil) and an error, and
  \<open>common.AssignDeviceNamesToDiskStats\<close>, which rewrites the disk I/O sub-record.
\<close>

record 'd statsCollaborators =
  lc_GetStats :: "libcontainerHandler \<Rightarrow> 'd ContainerStats option \<times> error option"
  AssignDeviceNamesToDiskStats :: "MachineInfo \<Rightarrow> 'd \<Rightarrow> 'd"

text \<open>
  The \<open>switch self.storageDriver\<close> of \<open>getFsStats\<close>: the accounting device, the error
  of the directory lookup, or \<open>None\<close> for the default case, which returns \<open>nil\<close>.
\<close>

definition accountingDevice :: "dockerContainerHandler \<Rightarrow> (error + string) option" where
  "accountingDevice self =
     (if storageDriver self = devicemapperStorageDriver then Some (Inr (poolName self))
      else if storageDriver self = aufsStorageDriver
            \<or> storageDriver self = overlayStorageDriver
            \<or> storageDriver self = overlay2StorageDriver then
        (case fsInfo self (rootfsStorageDir self) of
           Inl err \<Rightarrow> Some (Inl (DeviceInfoFailed (rootfsStorageDir self) err))
         | Inr deviceInfo \<Rightarrow> Some (Inr (di_Device deviceInfo)))
      else if storageDriver self = zfsStorageDriver then Some (Inr (zfsParent self))
      else None)"

text \<open>
  The loop over \<open>mi.Filesystems\<close>: the capacity and type of the first filesystem of the
  inventory on the device, the accumulator when there is none.
\<close>

fun findFilesystem :: "FsInfo list \<Rightarrow> string \<Rightarrow> uint64 \<times> string \<Rightarrow> uint64 \<times> string" where
  "findFilesystem [] device acc = acc"
| "findFilesystem (fs # rest) device acc =
     (if fi_Device fs = device then (fi_Capacity fs, fi_Type fs)
      else findFilesystem rest device acc)"

text \<open>The filesystem record that \<open>getFsStats\<close> appends.\<close>

definition fsStatOf :: "MachineInfo \<Rightarrow> string \<Rightarrow> FsUsage \<Rightarrow> FsStats" where
  "fsStatOf mi device u =
     (case findFilesystem (Filesystems mi) device (0, []) of
        (limit, fsType) \<Rightarrow>
          \<lparr>Device = device, Type = fsType, Limit = limit,
           BaseUsage = BaseUsageBytes u, Usage = TotalUsageBytes u, Inodes = InodeUsage u\<rparr>)"

text \<open>
  \<open>getFsStats\<close> writes through the stats pointer: the model returns the stats as they
  are after the call, beside the error. Dereferencing a nil pointer or calling a method
  of a nil interface panics.
\<close>

definition assignDiskNames ::
    "'d statsCollaborators \<Rightarrow> dockerContainerHandler \<Rightarrow> MachineInfo \<Rightarrow>
     'd ContainerStats option \<Rightarrow> 'd ContainerStats option outcome" where
  "assignDiskNames env self mi stats =
     (if Has (includedMetrics self) DiskIOMetrics then
        (case stats of
           None \<Rightarrow> Panic
         | Some s \<Rightarrow>
             Returned (Some (s\<lparr>DiskIo := AssignDeviceNamesToDiskStats env mi (DiskIo s)\<rparr>)))
      else Returned stats)"

definition getFsStats ::
    "'d statsCollaborators \<Rightarrow> dockerContainerHandler \<Rightarrow> 'd ContainerStats option \<Rightarrow>
     ('d ContainerStats option \<times> error option) outcome" where
  "getFsStats env self stats =
     (case machineInfoFactory self of
        Inl err \<Rightarrow> Returned (stats, Some err)
      | Inr mi \<Rightarrow>
          (case assignDiskNames env self mi stats of
             Panic \<Rightarrow> Panic
           | Returned stats1 \<Rightarrow>
               if \<not> Has (includedMetrics self) DiskUsageMetrics then Returned (stats1, None)
               else
                 (case accountingDevice self of
                    None \<Rightarrow> Returned (stats1, None)
                  | Some (Inl err) \<Rightarrow> Returned (stats1, Some err)
                  | Some (Inr device) \<Rightarrow>
                      (case fsHandler_c self of
                         None \<Rightarrow> Panic
                       | Some fh \<Rightarrow>
                           (case stats1 of
                              None \<Rightarrow> Panic
                            | Some s \<Rightarrow>
                                Returned
                                  (Some (s\<lparr>Filesystem := Filesystem s @
                                            [fsStatOf mi device (dockerFsHandler_Usage fh)]\<rparr>),
                                   None))))))"

definition GetStats ::
    "'d statsCollaborators \<Rightarrow> dockerContainerHandler \<Rightarrow>
     ('d ContainerStats option \<times> error option) outcome" where
  "GetStats env self =
     (case lc_GetStats env (libcontainerHandler self) of
        (stats, Some err) \<Rightarrow> Returned (stats, Some err)
      | (stats, None) \<Rightarrow>
          (case (if \<not> needNet self then
                   (case stats of
                      None \<Rightarrow> Panic
                    | Some s \<Rightarrow> Returned (Some (s\<lparr>Network := zeroNetworkStats\<rparr>)))
                 else Returned stats) of
             Panic \<Rightarrow> Panic
           | Returned stats1 \<Rightarrow>
               (case getFsStats env self stats1 of
                  Panic \<Rightarrow> Panic
                | Returned (stats2, Some err) \<Rightarrow> Returned (stats2, Some err)
                | Returned (stats2, None) \<Rightarrow> Returned (stats2, None))))"


section \<open>The kernel load protocol client (package netlink)\<close>

text \<open>
  Modelled from the spec: \<open>info.LoadStats\<close> is declared outside the sources; it counts
  the tasks in each scheduling state.
\<close>

record LoadStats =
  NrSleeping :: uint64
  NrRunning :: uint64
  NrStopped :: uint64
  NrUninterruptible :: uint64
  NrIoWait :: uint64

definition zeroLoadStats :: LoadStats where
  "zeroLoadStats =
     \<lparr>NrSleeping = 0, NrRunning = 0, NrStopped = 0, NrUninterruptible = 0, NrIoWait = 0\<rparr>"

text \<open>The reader: the resolved family id and the connection (a handle).\<close>

record NetlinkReader =
  familyId :: "16 word"
  conn :: nat

text \<open>
  What \<open>GetCpuLoad\<close> calls outside the sources: \<open>os.Open\<close>, which gives a file
  descriptor or an error, and \<open>getLoadStats\<close> of this package, which sends one request
  over the connection and waits for the reply.
\<close>

record kernel =
  os_Open :: "string \<Rightarrow> error + nat"
  getLoadStats :: "16 word \<Rightarrow> nat \<Rightarrow> nat \<Rightarrow> error + LoadStats"

text \<open>
  What a call does to the world, in order: an attempt to open a path, a request sent to
  the kernel for a descriptor, the closing of a descriptor.
\<close>

datatype syscall =
    Open string
  | LoadStatsRequest "16 word" nat nat
  | Close nat

text \<open>
  \<open>GetCpuLoad\<close> returns Go's pair of a load record and an error, and the trace of what
  it did. The deferred \<open>cfd.Close()\<close> runs on every return after a successful open.
\<close>

definition GetCpuLoad ::
    "kernel \<Rightarrow> NetlinkReader \<Rightarrow> string \<Rightarrow> string \<Rightarrow> (LoadStats \<times> error option) \<times> syscall list" where
  "GetCpuLoad k self name path =
     (if length path = 0 then ((zeroLoadStats, Some CgroupPathEmpty), [])
      else
        (case os_Open k path of
           Inl err \<Rightarrow> ((zeroLoadStats, Some (OpenCgroupPathFailed path err)), [Open path])
         | Inr cfd \<Rightarrow>
             (case getLoadStats k (familyId self) cfd (conn self) of
                Inl err \<Rightarrow>
                  ((zeroLoadStats, Some err),
                   [Open path, LoadStatsRequest (familyId self) cfd (conn self), Close cfd])
              | Inr stats \<Rightarrow>
                  ((stats, None),
                   [Open path, LoadStatsRequest (familyId self) cfd (conn self), Close cfd]))))"


section \<open>Vocabulary of the statements, and example values\<close>

text \<open>
  The value that a watcher's query gives when the watcher is configured and the query
  succeeds; \<open>None\<close> when the watcher is nil or the query fails.
\<close>

definition watcherUsage :: "watcher option \<Rightarrow> string \<Rightarrow> uint64 option" where
  "watcherUsage w key =
     (case w of
        None \<Rightarrow> None
      | Some getUsage \<Rightarrow> (case getUsage key of Inl err \<Rightarrow> None | Inr v \<Rightarrow> Some v))"

text \<open>
  A docker daemon with a storage root \<open>/var/lib/docker\<close>: the container \<open>abc123\<close>
  has the mount id \<open>m1\<close> under overlay2 and aufs, the container \<open>old777\<close> has a
  creation timestamp that does not parse, and no other container is known.
\<close>

definition exampleContainer :: ContainerJSON where
  "exampleContainer =
     \<lparr>Created = ''2016-01-02T15:04:05.123456789Z'', CName = ''/web'',
      Config_Labels = Some Map.empty, Config_Image = ''nginx:latest'',
      Config_Env = [''PATH=/usr/bin'', ''TIER=front''], State_Pid = 4242,
      HostConfig_NetworkMode = ''bridge'', RestartCount = 0,
      NetworkSettings_IPAddress = ''172.17.0.2'', GraphDriver_Data = Map.empty\<rparr>"

definition exampleReadFile :: "string \<Rightarrow> error + string" where
  "exampleReadFile p =
     (if p = ''/var/lib/docker/image/overlay2/layerdb/mounts/abc123/mount-id''
       \<or> p = ''/var/lib/docker/image/aufs/layerdb/mounts/abc123/mount-id''
      then Inr ''m1'' else Inl (External ''no such file or directory''))"

definition exampleCollaborators :: collaborators where
  "exampleCollaborators =
     \<lparr>ReadFile = exampleReadFile,
      ContainerInspect =
        (\<lambda>i. if i = ''abc123'' then Inr exampleContainer
             else if i = ''old777'' then Inr (exampleContainer\<lparr>Created := ''yesterday''\<rparr>)
             else Inl (External ''No such container'')),
      Status = Inl (External ''docker status unavailable''),
      time_Parse =
        (\<lambda>layout v. if v = ''2016-01-02T15:04:05.123456789Z''
                    then Inr 1451747045123456789 else Inl (External ''cannot parse'')),
      ToLower = (\<lambda>s. s),
      ContainerNameToDockerId = (\<lambda>n. TrimPrefix n ''/docker/''),
      MakeCgroupPaths = (\<lambda>mounts n k. map_option (\<lambda>m. m @ n) (mounts k)),
      DefaultPeriod = 60000000000,
      DriverStatusParentDataset = ''Parent Dataset''\<rparr>"

definition exampleConstruct ::
    "string \<Rightarrow> storageDriver \<Rightarrow> int list \<Rightarrow>
     (dockerContainerHandler option \<times> error option) outcome" where
  "exampleConstruct name sd ver =
     newDockerContainerHandler exampleCollaborators name (Inl (External ''no machine info''))
       (\<lambda>d. Inl (External ''no device'')) sd ''/var/lib/docker'' Map.empty True [''TIER'']
       ver {NetworkUsageMetrics} ''docker-thinpool'' None None"

text \<open>
  A handler as the constructor leaves it, by storage driver, network mode, metric set
  and thin pool watcher; its sampler's last snapshot is the baseline of Scenario B. The
  machine has one filesystem, on \<open>/dev/sda1\<close>.
\<close>

definition exampleHandler ::
    "storageDriver \<Rightarrow> string \<Rightarrow> MetricKind set \<Rightarrow> watcher option \<Rightarrow> dockerContainerHandler" where
  "exampleHandler sd nm metrics tpw =
     \<lparr>machineInfoFactory =
        Inr \<lparr>Filesystems =
               [\<lparr>fi_Device = ''/dev/sda1'', fi_Type = ''ext4'', fi_Capacity = 1000000\<rparr>]\<rparr>,
      cgroupPaths = Map.empty,
      storageDriver = sd,
      fsInfo = (\<lambda>d. Inr \<lparr>di_Device = ''/dev/sda1''\<rparr>),
      rootfsStorageDir = ''/var/lib/docker/overlay2/m1/diff'',
      creationTime = 1451747045123456789,
      envs = Map.empty,
      labels = Some Map.empty,
      image = ''nginx:latest'',
      networkMode = nm,
      fsHandler_c =
        (if Has metrics DiskUsageMetrics then
           Some \<lparr>fsHandler =
                   \<lparr>period = 60000000000, rootfs = ''/var/lib/docker/overlay2/m1/diff'',
                    extraDir = ''/var/lib/docker/containers/abc123'',
                    lastUsage =
                      \<lparr>BaseUsageBytes = 1000, TotalUsageBytes = 2000, InodeUsage = 5\<rparr>\<rparr>,
                 thinPoolWatcher = tpw, deviceID = ''pool-dev-1'',
                 zfsWatcher = None, zfsFilesystem = []\<rparr>
         else None),
      ipAddress = ''172.17.0.2'',
      includedMetrics = metrics,
      poolName = ''docker-thinpool'',
      zfsParent = [],
      reference =
        \<lparr>Id = ''abc123'', Name = ''/docker/abc123'', Aliases = [''web'', ''abc123''],
         Namespace = DockerNamespace\<rparr>,
      libcontainerHandler =
        \<lparr>lc_Name = ''/docker/abc123'', lc_Paths = Map.empty, lc_rootFs = ''/'',
         lc_pid = 4242, lc_includedMetrics = metrics\<rparr>\<rparr>"

text \<open>The stats that the libcontainer handler reports, with traffic on \<open>eth0\<close>.\<close>

definition exampleStats :: "nat ContainerStats" where
  "exampleStats =
     \<lparr>Network =
        \<lparr>Iface = \<lparr>IName = ''eth0'', RxBytes = 4096, TxBytes = 1024\<rparr>,
         Interfaces = [\<lparr>IName = ''eth0'', RxBytes = 4096, TxBytes = 1024\<rparr>]\<rparr>,
      Filesystem = [],
      DiskIo = 0\<rparr>"

definition exampleStatsCollaborators :: "nat statsCollaborators" where
  "exampleStatsCollaborators =
     \<lparr>lc_GetStats = (\<lambda>h. (Some exampleStats, None)),
      AssignDeviceNamesToDiskStats = (\<lambda>mi d. d)\<rparr>"


section \<open>The raw factory: what it accepts, and when it panics\<close>


lemma index_0: "index xs 0 = (case xs of [] \<Rightarrow> Panic | x # _ \<Rightarrow> Returned x)"
  by (cases xs) (simp_all add: index_def)




text \<open>
  C9. \<open>CanHandleAndAccept\<close> panics exactly when the runtime-only flag is set, the name
  is not \<open>/\<close> and the allow-list has length zero: there the condition indexes element 0
  of an empty slice. With a non-empty allow-list it never panics.
\<close>

theorem CanHandleAndAccept_panic_iff:
  "(CanHandleAndAccept dockerOnly self name = Panic) =
     (dockerOnly \<and> name \<noteq> ''/'' \<and> rawPrefixWhiteList self = [])"
  by (cases "rawPrefixWhiteList self")
     (auto simp: CanHandleAndAccept_def dockerOnlyAndNoWhiteList_def index_0 split: bool.splits)

theorem CanHandleAndAccept_panic_iff_witness:
  "CanHandleAndAccept True \<lparr>rawPrefixWhiteList = []\<rparr> ''/other'' = Panic \<and>
   CanHandleAndAccept True \<lparr>rawPrefixWhiteList = [''/sys'']\<rparr> ''/other'' \<noteq> Panic \<and>
   CanHandleAndAccept False \<lparr>rawPrefixWhiteList = []\<rparr> ''/other'' \<noteq> Panic \<and>
   CanHandleAndAccept True \<lparr>rawPrefixWhiteList = []\<rparr> ''/'' \<noteq> Panic"
  using CanHandleAndAccept_panic_iff [of True "\<lparr>rawPrefixWhiteList = []\<rparr>" "''/other''"]
    CanHandleAndAccept_panic_iff [of True "\<lparr>rawPrefixWhiteList = [''/sys'']\<rparr>" "''/other''"]
    CanHandleAndAccept_panic_iff [of False "\<lparr>rawPrefixWhiteList = []\<rparr>" "''/other''"]
    CanHandleAndAccept_panic_iff [of True "\<lparr>rawPrefixWhiteList = []\<rparr>" "''/''"]
  by simp


section \<open>The kernel load client: the empty path\<close>

text \<open>
  C6. With an empty path \<open>GetCpuLoad\<close> returns the zero load record and the error
  "cgroup path can not be empty!", and its trace is empty: no path is opened and no
  request reaches the kernel, whatever the operating system and the kernel would have
  answered.
\<close>

theorem GetCpuLoad_empty_path:
  "GetCpuLoad k self name [] = ((zeroLoadStats, Some CgroupPathEmpty), [])"
  by (simp add: GetCpuLoad_def)

text \<open>Scenario C, on a kernel that would have answered.\<close>

theorem GetCpuLoad_empty_path_witness:
  "GetCpuLoad
     \<lparr>os_Open = (\<lambda>p. Inr 3),
      getLoadStats = (\<lambda>f d c. Inr (zeroLoadStats\<lparr>NrRunning := 2\<rparr>))\<rparr>
     \<lparr>familyId = 22, conn = 1\<rparr> ''c1'' ''''
   = ((\<lparr>NrSleeping = 0, NrRunning = 0, NrStopped = 0, NrUninterruptible = 0, NrIoWait = 0\<rparr>,
       Some CgroupPathEmpty), [])"
  using GetCpuLoad_empty_path
    [of "\<lparr>os_Open = (\<lambda>p. Inr 3),
          getLoadStats = (\<lambda>f d c. Inr (zeroLoadStats\<lparr>NrRunning := 2\<rparr>))\<rparr>"
        "\<lparr>familyId = 22, conn = 1\<rparr>" "''c1''"]
  by (simp add: zeroLoadStats_def)


section \<open>Concrete paths\<close>

lemma mount_id_file_overlay2:
  "path_Join [''/var/lib/docker'', ''image'', ''overlay2'', ''layerdb'', ''mounts'',
              ''abc123'', ''mount-id'']
     = ''/var/lib/docker/image/overlay2/layerdb/mounts/abc123/mount-id''"
  by code_simp

lemma mount_id_file_aufs:
  "path_Join [''/var/lib/docker'', ''image'', ''aufs'', ''layerdb'', ''mounts'',
              ''abc123'', ''mount-id'']
     = ''/var/lib/docker/image/aufs/layerdb/mounts/abc123/mount-id''"
  by code_simp

lemma mount_id_file_unknown:
  "path_Join [''/var/lib/docker'', ''image'', ''overlay2'', ''layerdb'', ''mounts'',
              ''zzz999'', ''mount-id'']
     = ''/var/lib/docker/image/overlay2/layerdb/mounts/zzz999/mount-id''"
  by code_simp

lemma rw_layer_overlay2:
  "path_Join [''/var/lib/docker'', ''overlay2'', ''m1'', ''diff'']
     = ''/var/lib/docker/overlay2/m1/diff''"
  by code_simp

lemma rw_layer_aufs:
  "path_Join [''/var/lib/docker'', ''aufs'', ''diff'', ''m1''] = ''/var/lib/docker/aufs/diff/m1''"
  by code_simp

lemma rw_layer_aufs_claimed:
  "path_Join [''/var/lib/docker'', ''aufs'', ''m1'', ''diff''] = ''/var/lib/docker/aufs/m1/diff''"
  by code_simp

lemmas example_construct_defs =
  exampleConstruct_def newDockerContainerHandler_def exampleCollaborators_def
  TrimPrefix_def HasPrefix_def storageDirOf_def getRwLayerID_def beforeRandomizedID_def
  index_def randomizedRWLayerMinorVersion_def rwLayerIDFile_def exampleReadFile_def
  rwLayerLayout_def aufsStorageDriver_def overlayStorageDriver_def overlay2StorageDriver_def
  exampleContainer_def labelsOf_def ipAddressOf_def Let_def


section \<open>The mount identifier\<close>

text \<open>
  C5, as amended. The container id is returned as the mount identifier, and no file is
  read, on the versions whose major component is at most 1 and whose minor component is
  below 10. On every other version (a major component of 2 or more, whatever the minor
  one, or a minor component of 10 or more) exactly one file is read,
  \<open>storageDir/image/<driver>/layerdb/mounts/<containerId>/mount-id\<close>; its content is
  the identifier, and a failed read fails the resolution with an error.
\<close>

theorem getRwLayerID_by_version:
  "(2 \<le> length v \<and> v ! 0 \<le> 1 \<and> v ! 1 < 10 \<longrightarrow>
      getRwLayerID rf cid dir sd v = (Returned (cid, None), [])) \<and>
   ((1 \<le> length v \<and> 1 < v ! 0) \<or> (2 \<le> length v \<and> 10 \<le> v ! 1) \<longrightarrow>
      getRwLayerID rf cid dir sd v =
        ((case rf (path_Join [dir, ''image'', sd, ''layerdb'', ''mounts'', cid, ''mount-id'']) of
            Inl err \<Rightarrow> Returned ([], Some (RwLayerIDFailed cid err))
          | Inr bytes \<Rightarrow> Returned (bytes, None)),
         [path_Join [dir, ''image'', sd, ''layerdb'', ''mounts'', cid, ''mount-id'']]))"
  by (auto simp: getRwLayerID_def beforeRandomizedID_def index_def rwLayerIDFile_def
      randomizedRWLayerMinorVersion_def Let_def split: sum.splits)

text \<open>Docker 1.9.3 and 1.11.0 for a known container, 1.11.0 for an unknown one.\<close>

theorem getRwLayerID_by_version_witness:
  "getRwLayerID exampleReadFile ''abc123'' ''/var/lib/docker'' ''overlay2'' [1, 9, 3]
     = (Returned (''abc123'', None), []) \<and>
   getRwLayerID exampleReadFile ''abc123'' ''/var/lib/docker'' ''overlay2'' [1, 11, 0]
     = (Returned (''m1'', None),
        [''/var/lib/docker/image/overlay2/layerdb/mounts/abc123/mount-id'']) \<and>
   getRwLayerID exampleReadFile ''zzz999'' ''/var/lib/docker'' ''overlay2'' [1, 11, 0]
     = (Returned ([], Some (RwLayerIDFailed ''zzz999'' (External ''no such file or directory''))),
        [''/var/lib/docker/image/overlay2/layerdb/mounts/zzz999/mount-id''])"
  using getRwLayerID_by_version
      [of "[1, 9, 3]" exampleReadFile "''abc123''" "''/var/lib/docker''" "''overlay2''"]
    getRwLayerID_by_version
      [of "[1, 11, 0]" exampleReadFile "''abc123''" "''/var/lib/docker''" "''overlay2''"]
    getRwLayerID_by_version
      [of "[1, 11, 0]" exampleReadFile "''zzz999''" "''/var/lib/docker''" "''overlay2''"]
  by (simp add: mount_id_file_overlay2 mount_id_file_unknown exampleReadFile_def)

text \<open>
  C5 as stated fails on Docker 17.03.0: the minor component 3 is below 10, and yet the
  mapping file is read and its content, not the container id, is the identifier.
\<close>

theorem getRwLayerID_minor_counterexample:
  "getRwLayerID exampleReadFile ''abc123'' ''/var/lib/docker'' ''overlay2'' [17, 3, 0]
     = (Returned (''m1'', None),
        [''/var/lib/docker/image/overlay2/layerdb/mounts/abc123/mount-id''])"
  by (simp add: getRwLayerID_def beforeRandomizedID_def index_def rwLayerIDFile_def
      mount_id_file_overlay2 exampleReadFile_def)


section \<open>The writable layer directory\<close>

text \<open>
  C1, as amended. Whenever construction returns a handler, the mount identifier was
  resolved, and the writable-layer directory of the handler is the join of the storage
  root (the storage directory, under \<open>/rootfs\<close> when the collector runs outside the host
  namespace), the driver name, the mount identifier and the subdirectory \<open>upper\<close> for
  overlay, the same with the subdirectory \<open>diff\<close> for overlay2, and for aufs the join
  of the storage root, \<open>aufs\<close>, \<open>diff\<close> and the mount identifier, in this order.
\<close>

theorem rootfsStorageDir_layout:
  assumes "newDockerContainerHandler env name mif fsi sd storageDir cg inHost menvs ver
             metrics tpn tpw zw = Returned (Some h, e)"
  shows "\<exists>mountId.
           fst (getRwLayerID (ReadFile env) (ContainerNameToDockerId env name)
                  (storageDirOf inHost storageDir) sd ver) = Returned (mountId, None) \<and>
           (sd = ''overlay'' \<longrightarrow> rootfsStorageDir h =
              path_Join [storageDirOf inHost storageDir, ''overlay'', mountId, ''upper'']) \<and>
           (sd = ''overlay2'' \<longrightarrow> rootfsStorageDir h =
              path_Join [storageDirOf inHost storageDir, ''overlay2'', mountId, ''diff'']) \<and>
           (sd = ''aufs'' \<longrightarrow> rootfsStorageDir h =
              path_Join [storageDirOf inHost storageDir, ''aufs'', ''diff'', mountId])"
  using assms
  by (auto simp: newDockerContainerHandler_def Let_def rwLayerLayout_def
        aufsStorageDriver_def overlayStorageDriver_def overlay2StorageDriver_def
        zfsStorageDriver_def aufsRWLayer_def overlayRWLayer_def overlay2RWLayer_def
      split: outcome.splits prod.splits option.splits sum.splits if_splits)

text \<open>Scenario A: overlay2 on Docker 1.11.0, container \<open>abc123\<close>, mount id \<open>m1\<close>.\<close>

theorem rootfsStorageDir_layout_witness:
  "\<exists>h. exampleConstruct ''/docker/abc123'' ''overlay2'' [1, 11, 0] = Returned (Some h, None) \<and>
       rootfsStorageDir h = ''/var/lib/docker/overlay2/m1/diff''"
proof -
  have "\<exists>h. exampleConstruct ''/docker/abc123'' ''overlay2'' [1, 11, 0] = Returned (Some h, None)"
    by (simp add: example_construct_defs mount_id_file_overlay2)
  then obtain h where
    h: "exampleConstruct ''/docker/abc123'' ''overlay2'' [1, 11, 0] = Returned (Some h, None)" ..
  have id: "ContainerNameToDockerId exampleCollaborators ''/docker/abc123'' = ''abc123''"
    by (simp add: exampleCollaborators_def TrimPrefix_def HasPrefix_def)
  have rw: "fst (getRwLayerID (ReadFile exampleCollaborators) ''abc123''
                  ''/var/lib/docker'' ''overlay2'' [1, 11, 0])
              = Returned (''m1'', None)"
    by (simp add: example_construct_defs mount_id_file_overlay2)
  from rootfsStorageDir_layout [OF h [unfolded exampleConstruct_def]]
  have "rootfsStorageDir h = path_Join [''/var/lib/docker'', ''overlay2'', ''m1'', ''diff'']"
    by (auto simp: id rw storageDirOf_def)
  with h show ?thesis by (simp add: rw_layer_overlay2)
qed

text \<open>
  C1 as stated fails for aufs: the claimed order (root, driver, mount id, \<open>diff\<close>) gives
  \<open>/var/lib/docker/aufs/m1/diff\<close>, and the handler's directory is
  \<open>/var/lib/docker/aufs/diff/m1\<close>.
\<close>

theorem rootfsStorageDir_aufs_counterexample:
  "(case exampleConstruct ''/docker/abc123'' ''aufs'' [1, 11, 0] of
      Returned (Some h, None) \<Rightarrow>
        rootfsStorageDir h = ''/var/lib/docker/aufs/diff/m1'' \<and>
        rootfsStorageDir h \<noteq> path_Join [''/var/lib/docker'', ''aufs'', ''m1'', ''diff'']
    | _ \<Rightarrow> False)"
  by (simp add: example_construct_defs mount_id_file_aufs rw_layer_aufs rw_layer_aufs_claimed
      aufsRWLayer_def)


section \<open>Construction fails as a whole\<close>





section \<open>The corrected usage\<close>

lemma Usage_cases:
  "dockerFsHandler_Usage h =
     (case (watcherUsage (thinPoolWatcher h) (deviceID h),
            watcherUsage (zfsWatcher h) (zfsFilesystem h)) of
        (None, None) \<Rightarrow> lastUsage (fsHandler h)
      | (Some V, None) \<Rightarrow>
          \<lparr>BaseUsageBytes = V,
           TotalUsageBytes = TotalUsageBytes (lastUsage (fsHandler h)) + V,
           InodeUsage = InodeUsage (lastUsage (fsHandler h))\<rparr>
      | (None, Some V) \<Rightarrow>
          \<lparr>BaseUsageBytes = V,
           TotalUsageBytes = TotalUsageBytes (lastUsage (fsHandler h)) + V,
           InodeUsage = InodeUsage (lastUsage (fsHandler h))\<rparr>
      | (Some V1, Some V2) \<Rightarrow>
          \<lparr>BaseUsageBytes = V2,
           TotalUsageBytes = TotalUsageBytes (lastUsage (fsHandler h)) + V1 + V2,
           InodeUsage = InodeUsage (lastUsage (fsHandler h))\<rparr>)"
  by (cases "lastUsage (fsHandler h)")
     (simp add: dockerFsHandler_Usage_def thinPoolOverlay_def zfsOverlay_def watcherUsage_def
       split: option.splits sum.splits)

text \<open>
  C2, as amended. Let \<open>B\<close> be the sampler's snapshot. When exactly one of the two
  watchers is configured and answers, with the value \<open>V\<close>, the corrected usage is
  \<open>{Base: V, Total: B.Total + V, Inodes: B.Inodes}\<close>; a watcher that is nil or fails
  changes nothing, so the usage is \<open>B\<close> when neither answers; and when both answer,
  the thin pool with \<open>V1\<close> and the copy-on-write watcher with \<open>V2\<close>, both overlays
  apply in turn: \<open>{Base: V2, Total: B.Total + V1 + V2, Inodes: B.Inodes}\<close>. The sums
  are those of \<open>uint64\<close>.
\<close>

theorem dockerFsHandler_Usage_overlay:
  "(watcherUsage (thinPoolWatcher h) (deviceID h) = None \<and>
    watcherUsage (zfsWatcher h) (zfsFilesystem h) = None \<longrightarrow>
      dockerFsHandler_Usage h = lastUsage (fsHandler h)) \<and>
   (watcherUsage (thinPoolWatcher h) (deviceID h) = Some V \<and>
    watcherUsage (zfsWatcher h) (zfsFilesystem h) = None \<longrightarrow>
      dockerFsHandler_Usage h =
        \<lparr>BaseUsageBytes = V,
         TotalUsageBytes = TotalUsageBytes (lastUsage (fsHandler h)) + V,
         InodeUsage = InodeUsage (lastUsage (fsHandler h))\<rparr>) \<and>
   (watcherUsage (thinPoolWatcher h) (deviceID h) = None \<and>
    watcherUsage (zfsWatcher h) (zfsFilesystem h) = Some V \<longrightarrow>
      dockerFsHandler_Usage h =
        \<lparr>BaseUsageBytes = V,
         TotalUsageBytes = TotalUsageBytes (lastUsage (fsHandler h)) + V,
         InodeUsage = InodeUsage (lastUsage (fsHandler h))\<rparr>) \<and>
   (watcherUsage (thinPoolWatcher h) (deviceID h) = Some V1 \<and>
    watcherUsage (zfsWatcher h) (zfsFilesystem h) = Some V2 \<longrightarrow>
      dockerFsHandler_Usage h =
        \<lparr>BaseUsageBytes = V2,
         TotalUsageBytes = TotalUsageBytes (lastUsage (fsHandler h)) + V1 + V2,
         InodeUsage = InodeUsage (lastUsage (fsHandler h))\<rparr>)"
  by (simp add: Usage_cases)

text \<open>
  Scenario B: the thin pool watcher answers 500000 for the device \<open>pool-dev-1\<close>; and
  the same handler when the watcher does not know the device.
\<close>

theorem dockerFsHandler_Usage_overlay_witness:
  "dockerFsHandler_Usage
     \<lparr>fsHandler =
        \<lparr>period = 60000000000, rootfs = ''/var/lib/docker/devicemapper'',
         extraDir = ''/var/lib/docker/containers/abc123'',
         lastUsage = \<lparr>BaseUsageBytes = 1000, TotalUsageBytes = 2000, InodeUsage = 5\<rparr>\<rparr>,
      thinPoolWatcher =
        Some (\<lambda>d. if d = ''pool-dev-1'' then Inr 500000 else Inl (External ''no such device'')),
      deviceID = ''pool-dev-1'', zfsWatcher = None, zfsFilesystem = []\<rparr>
   = \<lparr>BaseUsageBytes = 500000, TotalUsageBytes = 502000, InodeUsage = 5\<rparr> \<and>
   dockerFsHandler_Usage
     \<lparr>fsHandler =
        \<lparr>period = 60000000000, rootfs = ''/var/lib/docker/devicemapper'',
         extraDir = ''/var/lib/docker/containers/abc123'',
         lastUsage = \<lparr>BaseUsageBytes = 1000, TotalUsageBytes = 2000, InodeUsage = 5\<rparr>\<rparr>,
      thinPoolWatcher =
        Some (\<lambda>d. if d = ''pool-dev-1'' then Inr 500000 else Inl (External ''no such device'')),
      deviceID = ''pool-dev-2'', zfsWatcher = None, zfsFilesystem = []\<rparr>
   = \<lparr>BaseUsageBytes = 1000, TotalUsageBytes = 2000, InodeUsage = 5\<rparr>"
  using dockerFsHandler_Usage_overlay
    [of "\<lparr>fsHandler =
           \<lparr>period = 60000000000, rootfs = ''/var/lib/docker/devicemapper'',
            extraDir = ''/var/lib/docker/containers/abc123'',
            lastUsage = \<lparr>BaseUsageBytes = 1000, TotalUsageBytes = 2000, InodeUsage = 5\<rparr>\<rparr>,
         thinPoolWatcher =
           Some (\<lambda>d. if d = ''pool-dev-1'' then Inr 500000
                     else Inl (External ''no such device'')),
         deviceID = ''pool-dev-1'', zfsWatcher = None, zfsFilesystem = []\<rparr>" 500000]
    dockerFsHandler_Usage_overlay
    [of "\<lparr>fsHandler =
           \<lparr>period = 60000000000, rootfs = ''/var/lib/docker/devicemapper'',
            extraDir = ''/var/lib/docker/containers/abc123'',
            lastUsage = \<lparr>BaseUsageBytes = 1000, TotalUsageBytes = 2000, InodeUsage = 5\<rparr>\<rparr>,
         thinPoolWatcher =
           Some (\<lambda>d. if d = ''pool-dev-1'' then Inr 500000
                     else Inl (External ''no such device'')),
         deviceID = ''pool-dev-2'', zfsWatcher = None, zfsFilesystem = []\<rparr>"]
  by (simp add: watcherUsage_def)

text \<open>
  C2 as stated fails when both watchers are configured: the thin pool watcher answers
  500000, and the usage is not \<open>{500000, 502000, 5}\<close>, since the copy-on-write
  watcher's 7 is laid over it.
\<close>

theorem dockerFsHandler_Usage_both_counterexample:
  "dockerFsHandler_Usage
     \<lparr>fsHandler =
        \<lparr>period = 60000000000, rootfs = ''/var/lib/docker/devicemapper'',
         extraDir = ''/var/lib/docker/containers/abc123'',
         lastUsage = \<lparr>BaseUsageBytes = 1000, TotalUsageBytes = 2000, InodeUsage = 5\<rparr>\<rparr>,
      thinPoolWatcher = Some (\<lambda>d. Inr 500000),
      deviceID = ''pool-dev-1'',
      zfsWatcher = Some (\<lambda>f. Inr 7),
      zfsFilesystem = ''tank/docker/abc123''\<rparr>
   = \<lparr>BaseUsageBytes = 7, TotalUsageBytes = 502007, InodeUsage = 5\<rparr> \<and>
   \<lparr>BaseUsageBytes = 7, TotalUsageBytes = 502007, InodeUsage = 5\<rparr>
     \<noteq> \<lparr>BaseUsageBytes = 500000 :: uint64, TotalUsageBytes = 502000, InodeUsage = 5\<rparr>"
  by (simp add: dockerFsHandler_Usage_def thinPoolOverlay_def zfsOverlay_def)


section \<open>The network sub-record\<close>

lemma getFsStats_Network:
  "getFsStats env self (Some s) = Returned (st, e) \<Longrightarrow>
     \<exists>s'. st = Some s' \<and> Network s' = Network s"
  by (auto simp: getFsStats_def assignDiskNames_def
      split: sum.splits outcome.splits if_splits option.splits)

lemma GetStats_zero_network:
  assumes "\<not> needNet self" and "GetStats env self = Returned (st, None)"
  shows "\<exists>s. st = Some s \<and> Network s = zeroNetworkStats"
proof -
  obtain stats0 where lc: "lc_GetStats env (libcontainerHandler self) = (stats0, None)"
    using assms(2) by (cases "lc_GetStats env (libcontainerHandler self)")
      (auto simp: GetStats_def split: option.splits)
  from assms lc obtain s0 where s0: "stats0 = Some s0"
    by (cases stats0) (auto simp: GetStats_def)
  from assms lc s0
  have "\<exists>e. getFsStats env self (Some (s0\<lparr>Network := zeroNetworkStats\<rparr>)) = Returned (st, e)"
    by (auto simp: GetStats_def split: outcome.splits option.splits)
  then obtain e where
    "getFsStats env self (Some (s0\<lparr>Network := zeroNetworkStats\<rparr>)) = Returned (st, e)" ..
  from getFsStats_Network [OF this] show ?thesis by simp
qed

lemmas example_stats_defs =
  GetStats_def getFsStats_def assignDiskNames_def needNet_def IsContainer_def SplitN2_def
  Has_def exampleHandler_def exampleStatsCollaborators_def accountingDevice_def
  devicemapperStorageDriver_def aufsStorageDriver_def overlayStorageDriver_def
  overlay2StorageDriver_def zfsStorageDriver_def fsStatOf_def dockerFsHandler_Usage_def
  thinPoolOverlay_def zfsOverlay_def

text \<open>
  C4. When the network mode of the handler's container says that it shares another
  container's network namespace, every \<open>GetStats\<close> call that returns without an error
  returns a stats record, and the network sub-record of that record is the zero value.
\<close>

theorem GetStats_shared_namespace_zero_network:
  assumes "IsContainer (networkMode self)" and "GetStats env self = Returned (st, None)"
  shows "\<exists>s. st = Some s \<and> Network s = zeroNetworkStats"
  using GetStats_zero_network [of self env st] assms by (simp add: needNet_def)

text \<open>
  A container in the namespace of \<open>pod1\<close>, with network metrics on: the traffic that
  libcontainer reports is wiped.
\<close>

theorem GetStats_shared_namespace_zero_network_witness:
  "IsContainer ''container:pod1'' \<and>
   GetStats exampleStatsCollaborators
     (exampleHandler ''overlay2'' ''container:pod1'' {NetworkUsageMetrics} None)
     = Returned (Some (exampleStats\<lparr>Network := zeroNetworkStats\<rparr>), None) \<and>
   Network exampleStats \<noteq> zeroNetworkStats"
proof -
  have a: "IsContainer (networkMode
             (exampleHandler ''overlay2'' ''container:pod1'' {NetworkUsageMetrics} None))"
    by (simp add: exampleHandler_def IsContainer_def SplitN2_def)
  have b: "GetStats exampleStatsCollaborators
             (exampleHandler ''overlay2'' ''container:pod1'' {NetworkUsageMetrics} None)
           = Returned (Some (exampleStats\<lparr>Network := zeroNetworkStats\<rparr>), None)"
    by (simp add: example_stats_defs)
  from GetStats_shared_namespace_zero_network [OF a b] a b show ?thesis
    by (simp add: exampleHandler_def exampleStats_def zeroNetworkStats_def)
qed

text \<open>
  C10. When the enabled metrics of the handler do not include the network usage
  metrics, every \<open>GetStats\<close> call that returns without an error returns a stats record
  whose network sub-record is the zero value, whatever the network mode is: the
  zeroing does not need a shared namespace.
\<close>

theorem GetStats_no_network_metrics_zero_network:
  assumes "\<not> Has (includedMetrics self) NetworkUsageMetrics"
    and "GetStats env self = Returned (st, None)"
  shows "\<exists>s. st = Some s \<and> Network s = zeroNetworkStats"
  using GetStats_zero_network [of self env st] assms by (simp add: needNet_def)

text \<open>
  A container in bridge mode, which owns its network namespace, with the disk I/O
  metrics only.
\<close>

theorem GetStats_no_network_metrics_zero_network_witness:
  "\<not> IsContainer ''bridge'' \<and>
   GetStats exampleStatsCollaborators
     (exampleHandler ''overlay2'' ''bridge'' {DiskIOMetrics} None)
     = Returned (Some (exampleStats\<lparr>Network := zeroNetworkStats\<rparr>), None) \<and>
   Network exampleStats \<noteq> zeroNetworkStats"
proof -
  have a: "\<not> Has (includedMetrics (exampleHandler ''overlay2'' ''bridge'' {DiskIOMetrics} None))
               NetworkUsageMetrics"
    by (simp add: exampleHandler_def Has_def)
  have b: "GetStats exampleStatsCollaborators
             (exampleHandler ''overlay2'' ''bridge'' {DiskIOMetrics} None)
           = Returned (Some (exampleStats\<lparr>Network := zeroNetworkStats\<rparr>), None)"
    by (simp add: example_stats_defs exampleStats_def)
  from GetStats_no_network_metrics_zero_network [OF a b] b show ?thesis
    by (simp add: IsContainer_def SplitN2_def exampleStats_def zeroNetworkStats_def)
qed


section \<open>A poll survives its optional sources\<close>

lemma findFilesystem_no_match:
  "\<forall>f \<in> set fss. fi_Device f \<noteq> device \<Longrightarrow> findFilesystem fss device acc = acc"
  by (induction fss) auto

lemma fsStatOf_Device: "Device (fsStatOf mi device u) = device"
  by (simp add: fsStatOf_def split: prod.splits)

lemma fsStatOf_usage:
  "BaseUsage (fsStatOf mi device u) = BaseUsageBytes u \<and>
   Usage (fsStatOf mi device u) = TotalUsageBytes u \<and>
   Inodes (fsStatOf mi device u) = InodeUsage u"
  by (simp add: fsStatOf_def split: prod.splits)

lemma fsStatOf_no_match:
  "\<forall>f \<in> set (Filesystems mi). fi_Device f \<noteq> device \<Longrightarrow>
     Limit (fsStatOf mi device u) = 0 \<and> Type (fsStatOf mi device u) = []"
  by (simp add: fsStatOf_def findFilesystem_no_match)

lemma GetStats_appends:
  assumes "lc_GetStats env (libcontainerHandler self) = (Some s, None)"
    and "machineInfoFactory self = Inr mi"
    and "Has (includedMetrics self) DiskUsageMetrics"
    and "accountingDevice self = Some (Inr device)"
    and "fsHandler_c self = Some fh"
  shows "\<exists>s'. GetStats env self = Returned (Some s', None) \<and>
           Filesystem s' = Filesystem s @ [fsStatOf mi device (dockerFsHandler_Usage fh)]"
  using assms by (simp add: GetStats_def getFsStats_def assignDiskNames_def)

text \<open>
  C8. Take a poll in which libcontainer returns its stats, the machine info is
  available, disk usage metrics are on and the accounting device is resolved. Then
  \<open>GetStats\<close> succeeds and appends one filesystem record for that device, whatever the
  watchers answer and whatever the inventory holds. When neither watcher gives a value
  (each is nil or fails) the record carries the sampler's snapshot unchanged; when no
  filesystem of the inventory is on the device, the record has the limit 0 and the
  empty type.
\<close>

theorem GetStats_survives_optional_sources:
  assumes "lc_GetStats env (libcontainerHandler self) = (Some s, None)"
    and "machineInfoFactory self = Inr mi"
    and "Has (includedMetrics self) DiskUsageMetrics"
    and "accountingDevice self = Some (Inr device)"
    and "fsHandler_c self = Some fh"
  shows "\<exists>s' r. GetStats env self = Returned (Some s', None) \<and>
           Filesystem s' = Filesystem s @ [r] \<and> Device r = device \<and>
           (watcherUsage (thinPoolWatcher fh) (deviceID fh) = None \<and>
            watcherUsage (zfsWatcher fh) (zfsFilesystem fh) = None \<longrightarrow>
              BaseUsage r = BaseUsageBytes (lastUsage (fsHandler fh)) \<and>
              Usage r = TotalUsageBytes (lastUsage (fsHandler fh)) \<and>
              Inodes r = InodeUsage (lastUsage (fsHandler fh))) \<and>
           ((\<forall>f \<in> set (Filesystems mi). fi_Device f \<noteq> device) \<longrightarrow>
              Limit r = 0 \<and> Type r = [])"
proof -
  let ?r = "fsStatOf mi device (dockerFsHandler_Usage fh)"
  from GetStats_appends [OF assms] obtain s' where
    s': "GetStats env self = Returned (Some s', None)"
        "Filesystem s' = Filesystem s @ [?r]" by blast
  have "watcherUsage (thinPoolWatcher fh) (deviceID fh) = None \<and>
        watcherUsage (zfsWatcher fh) (zfsFilesystem fh) = None \<longrightarrow>
          dockerFsHandler_Usage fh = lastUsage (fsHandler fh)"
    by (simp add: Usage_cases)
  then have u: "watcherUsage (thinPoolWatcher fh) (deviceID fh) = None \<and>
        watcherUsage (zfsWatcher fh) (zfsFilesystem fh) = None \<longrightarrow>
          BaseUsage ?r = BaseUsageBytes (lastUsage (fsHandler fh)) \<and>
          Usage ?r = TotalUsageBytes (lastUsage (fsHandler fh)) \<and>
          Inodes ?r = InodeUsage (lastUsage (fsHandler fh))"
    by (simp add: fsStatOf_usage)
  have m: "(\<forall>f \<in> set (Filesystems mi). fi_Device f \<noteq> device) \<longrightarrow>
             Limit ?r = 0 \<and> Type ?r = []"
    using fsStatOf_no_match [of mi device] by blast
  from s' u m fsStatOf_Device [of mi device "dockerFsHandler_Usage fh"] show ?thesis
    by blast
qed

text \<open>
  The thin pool driver with a watcher that does not know the device, on a machine
  whose inventory has no filesystem on the pool.
\<close>

theorem GetStats_survives_optional_sources_witness:
  "\<exists>s'. GetStats exampleStatsCollaborators
          (exampleHandler ''devicemapper'' ''bridge'' {NetworkUsageMetrics, DiskUsageMetrics}
             (Some (\<lambda>d. Inl (External ''no such device''))))
        = Returned (Some s', None) \<and>
        Filesystem s' =
          [\<lparr>Device = ''docker-thinpool'', Type = [], Limit = 0,
            BaseUsage = 1000, Usage = 2000, Inodes = 5\<rparr>]"
proof -
  let ?h = "exampleHandler ''devicemapper'' ''bridge'' {NetworkUsageMetrics, DiskUsageMetrics}
              (Some (\<lambda>d. Inl (External ''no such device'')))"
  let ?mi = "\<lparr>Filesystems =
                [\<lparr>fi_Device = ''/dev/sda1'', fi_Type = ''ext4'', fi_Capacity = 1000000\<rparr>]\<rparr>"
  let ?fh = "\<lparr>fsHandler =
                \<lparr>period = 60000000000, rootfs = ''/var/lib/docker/overlay2/m1/diff'',
                 extraDir = ''/var/lib/docker/containers/abc123'',
                 lastUsage = \<lparr>BaseUsageBytes = 1000, TotalUsageBytes = 2000, InodeUsage = 5\<rparr>\<rparr>,
              thinPoolWatcher = Some (\<lambda>d. Inl (External ''no such device'')),
              deviceID = ''pool-dev-1'', zfsWatcher = None, zfsFilesystem = []\<rparr>"
  have a: "lc_GetStats exampleStatsCollaborators (libcontainerHandler ?h)
             = (Some exampleStats, None)"
    by (simp add: exampleStatsCollaborators_def)
  have b: "machineInfoFactory ?h = Inr ?mi"
    by (simp add: exampleHandler_def)
  have c: "Has (includedMetrics ?h) DiskUsageMetrics"
    by (simp add: exampleHandler_def Has_def)
  have d: "accountingDevice ?h = Some (Inr ''docker-thinpool'')"
    by (simp add: exampleHandler_def accountingDevice_def devicemapperStorageDriver_def)
  have e: "fsHandler_c ?h = Some ?fh"
    by (simp add: exampleHandler_def Has_def)
  from GetStats_survives_optional_sources [OF a b c d e]
  obtain s' r where
    r: "GetStats exampleStatsCollaborators ?h = Returned (Some s', None)"
       "Filesystem s' = Filesystem exampleStats @ [r]"
       "Device r = ''docker-thinpool''"
       "BaseUsage r = 1000 \<and> Usage r = 2000 \<and> Inodes r = 5"
       "Limit r = 0 \<and> Type r = []"
    by (auto simp: watcherUsage_def)
  have "r = \<lparr>Device = ''docker-thinpool'', Type = [], Limit = 0,
               BaseUsage = 1000, Usage = 2000, Inodes = 5\<rparr>"
    using r(3,4,5) by (cases r) simp
  with r(1,2) show ?thesis by (simp add: exampleStats_def)
qed

end
